theory Spec2Isabelle
  imports Complex_Main
begin

section \<open>gpt-cli-tool: the translation-and-execution pipeline of main.go\<close>

text \<open>
  The program is one sequential run: parse the flags, find the parent shell, build the
  pseudo command, ask the oracle (\<open>makeCommand\<close>), show the answer, read a confirmation
  and run the command in the parent shell. Everything the run reads from outside is a field
  of the record \<open>env\<close>; everything it does to the outside is an \<open>event\<close> of its trace, in
  program order; how it ends is an \<open>outcome\<close>.
\<close>

subsection \<open>Values\<close>

text \<open>
  A decoded JSON value, as \<open>encoding/json\<close> stores it in an \<open>interface{}\<close>: \<open>JNull\<close> is
  the nil interface, a number is a finite float64 (kept as the rational it denotes), an
  object is a \<open>map[string]interface{}\<close>, kept as an association list read with \<open>map_of\<close>.
\<close>

datatype json =
    JNull
  | JBool bool
  | JNum rat
  | JStr string
  | JArr "json list"
  | JObj "(string \<times> json) list"

text \<open>Go's \<open>m[k]\<close> on a \<open>map[string]interface{}\<close>: the nil interface when the key is absent.\<close>

definition index_map :: "(string \<times> json) list \<Rightarrow> string \<Rightarrow> json" where
  "index_map m k = (case map_of m k of None \<Rightarrow> JNull | Some v \<Rightarrow> v)"

text \<open>The three package-level variables set by the flags (lines 50-54), with the defaults of \<open>init\<close>.\<close>

record config =
  verbose :: bool
  displayVersion :: bool
  model :: string

definition init :: config where
  "init = \<lparr>verbose = False, displayVersion = False, model = ''gpt-3.5-turbo''\<rparr>"

definition version :: string where
  "version = ''0.1''"

definition apiKeyInfo :: string where
  "apiKeyInfo = ''Goto https://platform.openai.com/account/api-keys to get your API key. Set the API key on CLI by 'export OPENAI_API_KEY=key' on Linux and MacOS or $Env:OPENAI_API_KEY = 'key' on Windows PowerShell\<newline>\<newline>''"

text \<open>
  The request body (lines 73-104). The program sets \<open>Model\<close>, \<open>Messages\<close> and \<open>MaxTokens\<close>;
  every other field of the Go struct keeps its zero value and is left out of the JSON by
  \<open>omitempty\<close>.
\<close>

record ChatCompletionMessage =
  Role :: string
  Content :: string

record ChatCompletionRequest =
  Model :: string
  Messages :: "ChatCompletionMessage list"
  MaxTokens :: int

text \<open>The request handed to \<open>client.Do\<close>: method, URL, the two headers, and the payload whose
  JSON encoding is the body.\<close>

record http_request =
  Method :: string
  URL :: string
  Header :: "(string \<times> string) list"
  Body :: ChatCompletionRequest

subsection \<open>Effects\<close>

text \<open>
  An operand of a formatted print, as the program passes it: the formatting itself is the
  work of package \<open>fmt\<close> and is not modelled, so a print event keeps the format string of the
  source and its operands unrendered.
\<close>

datatype operand =
    OStr string                                \<comment> \<open>a Go string\<close>
  | OAny json                                  \<comment> \<open>an \<open>interface{}\<close> taken from the reply\<close>
  | OMap "(string \<times> json) list"                \<comment> \<open>a \<open>map[string]interface{}\<close>\<close>
  | OData "ChatCompletionRequest option"       \<comment> \<open>the bytes of \<open>json.Marshal\<close>; \<open>None\<close> is the nil slice\<close>
  | OErr string                                \<comment> \<open>an \<open>error\<close>, by its message\<close>

datatype flag_error =
    ErrHelp
  | BadFlagSyntax string
  | NotDefined string
  | InvalidBoolean string string
  | NeedsArgument string

datatype event =
    Printf string "operand list"               \<comment> \<open>\<open>fmt.Printf(format, operands...)\<close>, standard output\<close>
  | Print "operand list"                       \<comment> \<open>\<open>fmt.Print\<close>\<close>
  | Println "operand list"                     \<comment> \<open>\<open>fmt.Println\<close>\<close>
  | FprintfStderr string "operand list"        \<comment> \<open>\<open>fmt.Fprintf(os.Stderr, format, operands...)\<close>\<close>
  | PrintDefaults                              \<comment> \<open>\<open>flag.PrintDefaults()\<close>\<close>
  | FlagMessage flag_error                     \<comment> \<open>the error line package \<open>flag\<close> prints before the usage\<close>
  | LogPrintf string "operand list"            \<comment> \<open>\<open>log.Printf\<close>, reached through \<open>debugPrintf\<close>\<close>
  | Cyan string                                \<comment> \<open>\<open>color.Cyan(command)\<close>\<close>
  | ClientDo http_request                      \<comment> \<open>\<open>client.Do(req)\<close>: the one network call\<close>
  | CmdRun string "string list"                \<comment> \<open>\<open>exec.Command(name, args...)\<close> followed by \<open>cmd.Run()\<close>\<close>

text \<open>A run ends by \<open>os.Exit(n)\<close> (or by returning from \<open>main\<close>, which is exit status 0), or by
  a runtime panic that nothing recovers: the Go runtime prints the goroutine trace and
  exits with status 2.\<close>

datatype panic =
    InterfaceConversion                        \<comment> \<open>a failed single-value type assertion\<close>
  | IndexOutOfRange
  | NilDereference                             \<comment> \<open>a method call on a nil interface value\<close>

datatype outcome = Exit nat | Panic panic

text \<open>What \<open>client.Do\<close>, \<open>io.ReadAll\<close> and \<open>json.Unmarshal\<close> leave behind: a transport error,
  a read error, or the map \<open>result\<close> after \<open>json.Unmarshal(body, &result)\<close> (whose own error
  the program drops; the map is empty when the body is not a JSON object).\<close>

datatype http_result =
    DoError string
  | ReadError string
  | Reply "(string \<times> json) list"

text \<open>A rune of standard input, by its code point.\<close>

type_synonym rune = nat

record env =
  os_args :: "string list"                     \<comment> \<open>\<open>os.Args\<close>\<close>
  this_command :: string                       \<comment> \<open>\<open>filepath.Base(os.Args[0])\<close>\<close>
  goos :: string                               \<comment> \<open>\<open>runtime.GOOS\<close>\<close>
  openai_api_key :: string                     \<comment> \<open>\<open>os.Getenv("OPENAI_API_KEY")\<close>: empty when unset\<close>
  parent_process :: "string option"            \<comment> \<open>\<open>ps.FindProcess(os.Getppid())\<close>: \<open>None\<close> is the nil
                                                   \<open>Process\<close>, \<open>Some n\<close> one whose \<open>Executable()\<close> is \<open>n\<close>\<close>
  marshal_error :: "string option"             \<comment> \<open>the error of \<open>json.Marshal(payload)\<close>\<close>
  new_request_error :: "string option"         \<comment> \<open>the error of \<open>http.NewRequest\<close>\<close>
  http_reply :: http_result
  stdin :: "rune list"                         \<comment> \<open>what standard input holds at the prompt\<close>
  run_error :: "string option"                 \<comment> \<open>the error of \<open>cmd.Run()\<close>: the child did not start,
                                                   or exited non-zero\<close>

subsection \<open>debugPrintf (lines 67-71)\<close>

definition debugPrintf :: "config \<Rightarrow> string \<Rightarrow> operand list \<Rightarrow> event list" where
  "debugPrintf cfg format args = (if verbose cfg then [LogPrintf format args] else [])"

subsection \<open>Library functions the program calls\<close>

text \<open>\<open>strings.Join(elems, sep)\<close>.\<close>

fun strings_Join :: "string list \<Rightarrow> string \<Rightarrow> string" where
  "strings_Join [] sep = []"
| "strings_Join [x] sep = x"
| "strings_Join (x # y # ys) sep = x @ sep @ strings_Join (y # ys) sep"

text \<open>\<open>strings.Replace(s, old, new, 1)\<close>: the leftmost occurrence of \<open>old\<close> is replaced, if
  there is one (an empty \<open>old\<close> matches at the start).\<close>

fun strings_Replace1 :: "string \<Rightarrow> string \<Rightarrow> string \<Rightarrow> string" where
  "strings_Replace1 [] old new = (if old = [] then new else [])"
| "strings_Replace1 (c # cs) old new =
     (if take (length old) (c # cs) = old then new @ drop (length old) (c # cs)
      else c # strings_Replace1 cs old new)"

text \<open>\<open>strconv.ParseBool\<close>, which package \<open>flag\<close> applies to \<open>-v=value\<close> and \<open>-V=value\<close>.\<close>

definition ParseBool :: "string \<Rightarrow> bool option" where
  "ParseBool s =
     (if s \<in> set [''1'', ''t'', ''T'', ''TRUE'', ''true'', ''True''] then Some True
      else if s \<in> set [''0'', ''f'', ''F'', ''FALSE'', ''false'', ''False''] then Some False
      else None)"

text \<open>
  \<open>flag.Parse()\<close> over the three flags of \<open>init\<close> (lines 61-65): the loop of
  \<open>FlagSet.parseOne\<close>. An argument shorter than two characters or not starting with \<open>-\<close>
  ends the flags, \<open>--\<close> ends them and is dropped; a name may carry its value after \<open>=\<close>;
  the boolean flags \<open>v\<close> and \<open>V\<close> take no separate value, the string flag \<open>m\<close> takes the
  next argument. The result is the flag variables and the remaining positional arguments
  (\<open>flag.Args()\<close>), or the error at which parsing stopped.
\<close>

fun flag_Parse :: "config \<Rightarrow> string list \<Rightarrow> flag_error + (config \<times> string list)" where
  "flag_Parse cfg [] = Inr (cfg, [])"
| "flag_Parse cfg (s # rest) =
     (if length s < 2 \<or> hd s \<noteq> CHR ''-'' then Inr (cfg, s # rest)
      else if s = ''--'' then Inr (cfg, rest)
      else
        let numMinuses = (if s ! 1 = CHR ''-'' then 2 else 1);
            name0 = drop numMinuses s
        in if name0 = [] \<or> hd name0 = CHR ''-'' \<or> hd name0 = CHR ''='' then Inl (BadFlagSyntax s)
           else
             let hasValue = (CHR ''='' \<in> set name0);
                 name = takeWhile (\<lambda>c. c \<noteq> CHR ''='') name0;
                 val = drop 1 (dropWhile (\<lambda>c. c \<noteq> CHR ''='') name0)
             in if name = ''v'' then
                  (if hasValue then
                     (case ParseBool val of
                        None \<Rightarrow> Inl (InvalidBoolean val name)
                      | Some b \<Rightarrow> flag_Parse (cfg\<lparr>verbose := b\<rparr>) rest)
                   else flag_Parse (cfg\<lparr>verbose := True\<rparr>) rest)
                else if name = ''V'' then
                  (if hasValue then
                     (case ParseBool val of
                        None \<Rightarrow> Inl (InvalidBoolean val name)
                      | Some b \<Rightarrow> flag_Parse (cfg\<lparr>displayVersion := b\<rparr>) rest)
                   else flag_Parse (cfg\<lparr>displayVersion := True\<rparr>) rest)
                else if name = ''m'' then
                  (if hasValue then flag_Parse (cfg\<lparr>model := val\<rparr>) rest
                   else
                     (case rest of
                        [] \<Rightarrow> Inl (NeedsArgument name)
                      | v # rest' \<Rightarrow> flag_Parse (cfg\<lparr>model := v\<rparr>) rest'))
                else if name = ''help'' \<or> name = ''h'' then Inl ErrHelp
                else Inl (NotDefined name))"

text \<open>
  \<open>fmt.Scanln(&confirmation)\<close> for one string operand, on the runes of standard input.
  \<open>isSpace\<close> is the table of \<open>fmt/scan.go\<close>. \<open>SkipSpace\<close> drops leading blanks and fails at
  a newline (\<open>None\<close>: "unexpected newline"). The operand is then the next word, up to the
  first space or newline. When the scan fails before a word is read (empty line, end of
  input) the variable keeps its zero value, the empty string. Whatever follows the word
  only makes \<open>Scanln\<close> return an error, which the program does not look at.
\<close>

definition isSpace :: "rune \<Rightarrow> bool" where
  "isSpace r =
     ((0x09 \<le> r \<and> r \<le> 0x0d) \<or> r = 0x20 \<or> r = 0x85 \<or> r = 0xa0 \<or> r = 0x1680 \<or>
      (0x2000 \<le> r \<and> r \<le> 0x200a) \<or> r = 0x2028 \<or> r = 0x2029 \<or> r = 0x202f \<or>
      r = 0x205f \<or> r = 0x3000)"

fun SkipSpace :: "rune list \<Rightarrow> rune list option" where
  "SkipSpace [] = Some []"
| "SkipSpace (r # rs) =
     (if r = 0x0d \<and> take 1 rs = [0x0a] then SkipSpace rs
      else if r = 0x0a then None
      else if isSpace r then SkipSpace rs
      else Some (r # rs))"

definition Scanln_string :: "rune list \<Rightarrow> rune list" where
  "Scanln_string input =
     (case SkipSpace input of
        None \<Rightarrow> []
      | Some [] \<Rightarrow> []
      | Some (r # rs) \<Rightarrow> takeWhile (\<lambda>c. \<not> isSpace c) (r # rs))"

text \<open>The runes of an ASCII text, to write inputs down.\<close>

definition runes :: "string \<Rightarrow> rune list" where
  "runes s = map of_char s"

text \<open>
  What \<open>fmt\<close> prints for the verb \<open>%s\<close> and one operand: a Go string or an error message as
  it is; for an \<open>interface{}\<close> from the reply, a string as it is, the nil interface as
  \<open>%!s(<nil>)\<close> and a boolean as \<open>%!s(bool=...)\<close>. Numbers, arrays and maps are not modelled
  (\<open>None\<close>).
\<close>

fun fmt_s :: "operand \<Rightarrow> string option" where
  "fmt_s (OStr s) = Some s"
| "fmt_s (OErr m) = Some m"
| "fmt_s (OAny (JStr s)) = Some s"
| "fmt_s (OAny JNull) = Some ''%!s(<nil>)''"
| "fmt_s (OAny (JBool b)) = Some (''%!s(bool='' @ (if b then ''true'' else ''false'') @ '')'')"
| "fmt_s _ = None"

text \<open>
  The text that \<open>fmt.Printf(format, operands...)\<close> writes, for a format whose only verb is
  \<open>%s\<close> and which has one operand for each verb: the format is copied, and each \<open>%s\<close> is
  replaced by its operand as \<open>fmt_s\<close> prints it (an operand is never read as a format).
  Other verbs, and a number of operands that does not match, are not modelled (\<open>None\<close>).
\<close>

fun Sprintf :: "string \<Rightarrow> operand list \<Rightarrow> string option" where
  "Sprintf [] ops = (if ops = [] then Some [] else None)"
| "Sprintf (c # rest) ops =
     (if c \<noteq> CHR ''%'' then map_option (\<lambda>text. c # text) (Sprintf rest ops)
      else
        (case rest of
           [] \<Rightarrow> None
         | v # rest' \<Rightarrow>
             if v \<noteq> CHR ''s'' then None
             else
               (case ops of
                  [] \<Rightarrow> None
                | a # ops' \<Rightarrow>
                    (case fmt_s a of
                       None \<Rightarrow> None
                     | Some x \<Rightarrow> map_option (\<lambda>text. x @ text) (Sprintf rest' ops')))))"

subsection \<open>makeCommand (lines 123-200)\<close>

text \<open>The prompt of lines 143-147.\<close>

definition prompt :: "string \<Rightarrow> string \<Rightarrow> string \<Rightarrow> string" where
  "prompt plattform commandShell pseudoCommand =
     ''Convert this pseudo command into a real command that can be run on '' @
     plattform @ '' and '' @ commandShell @
     '' command shell. Note that the command might include misspelled, invalid or '' @
     ''imagined arguments or even imagined program names. Try your best to convert it '' @
     ''into an actual command that would do what the command seems to be intended to do.\<newline>\<newline>'' @
     pseudoCommand @ ''\<newline>\<newline>Respond only with the command.''"

text \<open>
  Lines 183-199, once \<open>result\<close> holds the decoded reply. Each \<open>x.(T)\<close> of the source is a
  single-value type assertion: it panics when \<open>x\<close> is not a \<open>T\<close>, and so does \<open>choices[0]\<close> on
  an empty slice. The result is the trace and either how the run ended or the pair
  \<open>(content, usage)\<close> that \<open>makeCommand\<close> returns.
\<close>

definition extract_reply ::
  "config \<Rightarrow> (string \<times> json) list \<Rightarrow> event list \<times> (outcome + string \<times> (string \<times> json) list)" where
  "extract_reply cfg result =
     (case map_of result ''error'' of
        Some err \<Rightarrow>
          (case err of
             JObj errorDetails \<Rightarrow>
               ([Printf ''Error code %s: %s''
                   [OAny (index_map errorDetails ''code''), OAny (index_map errorDetails ''message'')]],
                Inl (Exit 1))
           | _ \<Rightarrow> ([], Inl (Panic InterfaceConversion)))
      | None \<Rightarrow>
          (let t = debugPrintf cfg ''result:\<newline>%#v\<newline>'' [OMap result] in
           case index_map result ''choices'' of
             JArr choices \<Rightarrow>
               (case choices of
                  [] \<Rightarrow> (t, Inl (Panic IndexOutOfRange))
                | choice0 # _ \<Rightarrow>
                    (case choice0 of
                       JObj firstChoice \<Rightarrow>
                         (case index_map firstChoice ''message'' of
                            JObj message \<Rightarrow>
                              (case index_map message ''content'' of
                                 JStr content \<Rightarrow>
                                   (case index_map result ''usage'' of
                                      JObj usage \<Rightarrow>
                                        (t @ debugPrintf cfg ''usage:\<newline>%#v\<newline>'' [OMap usage],
                                         Inr (content, usage))
                                    | _ \<Rightarrow> (t, Inl (Panic InterfaceConversion)))
                               | _ \<Rightarrow> (t, Inl (Panic InterfaceConversion)))
                          | _ \<Rightarrow> (t, Inl (Panic InterfaceConversion)))
                     | _ \<Rightarrow> (t, Inl (Panic InterfaceConversion))))
           | _ \<Rightarrow> (t, Inl (Panic InterfaceConversion))))"

text \<open>The payload of lines 138-151 and the request of lines 160-167.\<close>

definition url :: string where
  "url = ''https://api.openai.com/v1/chat/completions''"

definition payload_of :: "string \<Rightarrow> string \<Rightarrow> ChatCompletionRequest" where
  "payload_of mdl content =
     \<lparr>Model = mdl, Messages = [\<lparr>Role = ''user'', Content = content\<rparr>], MaxTokens = 1000\<rparr>"

definition request_of :: "string \<Rightarrow> ChatCompletionRequest \<Rightarrow> http_request" where
  "request_of apiKey payload =
     \<lparr>Method = ''POST'', URL = url,
      Header = [(''Content-Type'', ''application/json''), (''Authorization'', ''Bearer '' @ apiKey)],
      Body = payload\<rparr>"

definition makeCommand ::
  "env \<Rightarrow> config \<Rightarrow> string \<Rightarrow> string \<Rightarrow> event list \<times> (outcome + string \<times> (string \<times> json) list)" where
  "makeCommand e cfg pseudoCommand commandShell =
     (let apiKey = openai_api_key e in
      if apiKey = [] then
        ([Printf ''Error: OPENAI_API_KEY is not set. %s'' [OStr apiKeyInfo]], Inl (Exit 1))
      else
        let plattform = goos e;
            payload = payload_of (model cfg) (prompt plattform commandShell pseudoCommand);
            data = (case marshal_error e of None \<Rightarrow> Some payload | Some _ \<Rightarrow> None);
            t = debugPrintf cfg ''OPENAI_API_KEY: %s'' [OStr apiKey] @
                debugPrintf cfg ''API URL: %s'' [OStr url] @
                debugPrintf cfg ''plattform: %s'' [OStr plattform] @
                debugPrintf cfg ''\<newline>%s\<newline>'' [OData data]
        in case marshal_error e of
             Some err \<Rightarrow> (t @ [Println [OStr ''Error marshaling payload:'', OErr err]], Inl (Exit 1))
           | None \<Rightarrow>
               (case new_request_error e of
                  Some err \<Rightarrow> (t @ [Println [OStr ''Error creating request:'', OErr err]], Inl (Exit 1))
                | None \<Rightarrow>
                    (let t = t @ [ClientDo (request_of apiKey payload)]
                     in case http_reply e of
                          DoError err \<Rightarrow> (t @ [Println [OStr ''Error:'', OErr err]], Inl (Exit 1))
                        | ReadError err \<Rightarrow>
                            (t @ [Println [OStr ''Error reading response:'', OErr err]], Inl (Exit 1))
                        | Reply result \<Rightarrow>
                            (case extract_reply cfg result of (t', r) \<Rightarrow> (t @ t', r)))))"

subsection \<open>main (lines 202-294)\<close>

text \<open>The closure assigned to \<open>flag.Usage\<close> (lines 204-217), which package \<open>flag\<close> calls on a
  parse error and on \<open>-h\<close>. It looks the parent process up itself.\<close>

definition Usage :: "env \<Rightarrow> panic + event list" where
  "Usage e =
     (let thisCommand = this_command e in
      case parent_process e of
        None \<Rightarrow> Inl NilDereference
      | Some parentProcessName \<Rightarrow>
          Inr [FprintfStderr (''Convert a pseudo command into a real command that can be run on '' @
                              goos e @ '' and '' @ parentProcessName @ '' command shell.\<newline>\<newline>'') [],
               FprintfStderr ''%s-%s by Herwig Grimm <herwig.grimm@gmail.com>\<newline>\<newline>''
                 [OStr thisCommand, OStr version],
               FprintfStderr (''Usage: '' @ thisCommand @ '' [-v] [-m <model>] <pseudo command>\<newline>\<newline>'') [],
               FprintfStderr (''Command requires API key from OpenAI. '' @ apiKeyInfo) [],
               FprintfStderr ''Options:\<newline>'' [],
               PrintDefaults])"

text \<open>Lines 231-240: all arguments joined, then the flags cut out of the text.\<close>

definition pseudo_command :: "config \<Rightarrow> string list \<Rightarrow> string" where
  "pseudo_command cfg args =
     (let pseudo = strings_Join args '' '';
          pseudo = (if verbose cfg then strings_Replace1 pseudo ''-v'' [] else pseudo)
      in strings_Replace1 pseudo (''-m '' @ model cfg) [])"

text \<open>Lines 263-284: the launcher for the platform and the parent shell, as the name and
  arguments given to \<open>exec.Command\<close>; \<open>None\<close> is either \<open>default\<close> branch.\<close>

definition launcher :: "string \<Rightarrow> string \<Rightarrow> string \<Rightarrow> (string \<times> string list) option" where
  "launcher os parentProcessName command =
     (if os = ''windows'' then
        (if parentProcessName = ''powershell.exe'' then Some (''powershell.exe'', [''-c'', command])
         else if parentProcessName = ''cmd.exe'' then Some (''cmd.exe'', [''/C'', command])
         else None)
      else
        (if parentProcessName = ''zsh'' then Some (''zsh'', [''-c'', command])
         else if parentProcessName = ''bash'' then Some (''bash'', [''-c'', command])
         else None))"

text \<open>Lines 204-251: from the start of \<open>main\<close> to the return of \<open>makeCommand\<close>. The result is
  the trace and either how the run ended or \<open>(command, usage, parentProcessName)\<close>.
  An empty \<open>os.Args\<close> makes \<open>os.Args[0]\<close> panic. On a parse error the flag set of the
  command line (\<open>ExitOnError\<close>) prints the error, calls \<open>flag.Usage\<close> and exits with status 2;
  for \<open>-h\<close> and \<open>-help\<close> it calls \<open>flag.Usage\<close> and exits with status 0.\<close>

definition translate ::
  "env \<Rightarrow> event list \<times> (outcome + string \<times> (string \<times> json) list \<times> string)" where
  "translate e =
     (case os_args e of
        [] \<Rightarrow> ([], Inl (Panic IndexOutOfRange))
      | arg0 # args \<Rightarrow>
          (case flag_Parse init args of
             Inl err \<Rightarrow>
               (let t = (if err = ErrHelp then [] else [FlagMessage err]) in
                case Usage e of
                  Inl p \<Rightarrow> (t, Inl (Panic p))
                | Inr u \<Rightarrow> (t @ u, Inl (Exit (if err = ErrHelp then 0 else 2))))
           | Inr (cfg, positional) \<Rightarrow>
               if displayVersion cfg then ([Println [OStr (''Version: '' @ version)]], Inl (Exit 0))
               else
                 (case parent_process e of
                    None \<Rightarrow> ([], Inl (Panic NilDereference))
                  | Some parentProcessName \<Rightarrow>
                      (let t = debugPrintf cfg ''parent process name %s\<newline>'' [OStr parentProcessName];
                           pseudo = pseudo_command cfg args
                       in if pseudo = [] then
                            (t @ [PrintDefaults,
                                  Println [OStr (''Example: '' @ this_command e @
                                     '' Find files larger than 42kB in the current directory'')]],
                             Inl (Exit 1))
                          else
                            (case makeCommand e cfg pseudo parentProcessName of
                               (t', Inl out) \<Rightarrow> (t @ t', Inl out)
                             | (t', Inr (command, usage)) \<Rightarrow>
                                 (t @ t', Inr (command, usage, parentProcessName)))))))"

text \<open>Lines 252-257: the answer as it is shown, and the prompt.\<close>

definition answer_shown :: "string \<Rightarrow> (string \<times> json) list \<Rightarrow> event list" where
  "answer_shown command usage =
     [Printf ''Looks insanely complicated? Don't panic. The answer is ...\<newline>'' [],
      Printf ''number of tokens used (total_tokens): %.1f\<newline>''
        [OAny (index_map usage ''total_tokens'')],
      Cyan command,
      Print [OStr ''Run? (y/n) '']]"

text \<open>Lines 289-291: the error of \<open>cmd.Run()\<close> is printed, and nothing else is done with it.\<close>

definition run_reported :: "env \<Rightarrow> event list" where
  "run_reported e =
     (case run_error e of
        None \<Rightarrow> []
      | Some err \<Rightarrow> [Println [OStr ''Error: '', OErr err]])"

text \<open>Lines 252-293: show the answer, read the confirmation, run the command. The string
  \<open>confirmation\<close> is the UTF-8 text of the word read, which is \<open>"y"\<close> exactly when the word
  is the one rune \<open>y\<close>.\<close>

definition confirm_run ::
  "env \<Rightarrow> string \<Rightarrow> (string \<times> json) list \<Rightarrow> string \<Rightarrow> event list \<times> outcome" where
  "confirm_run e command usage parentProcessName =
     (let t = answer_shown command usage;
          confirmation = Scanln_string (stdin e)
      in if confirmation = runes ''y'' then
           (case launcher (goos e) parentProcessName command of
              None \<Rightarrow>
                (t @ [Printf ''Error: unsupported shell %s on %s''
                        [OStr parentProcessName, OStr (goos e)]],
                 Exit 1)
            | Some (name, arg) \<Rightarrow> (t @ [CmdRun name arg] @ run_reported e, Exit 0))
         else (t, Exit 0))"

definition main :: "env \<Rightarrow> event list \<times> outcome" where
  "main e =
     (case translate e of
        (t, Inl out) \<Rightarrow> (t, out)
      | (t, Inr (command, usage, parentProcessName)) \<Rightarrow>
          (case confirm_run e command usage parentProcessName of
             (t', out) \<Rightarrow> (t @ t', out)))"

text \<open>What a run writes through package \<open>log\<close>: the log lines of its trace, in order.\<close>

definition logged :: "event list \<Rightarrow> event list" where
  "logged t = filter (\<lambda>ev. case ev of LogPrintf format args \<Rightarrow> True | _ \<Rightarrow> False) t"

subsection \<open>A concrete run\<close>

text \<open>
  The first end-to-end scenario of the specification: the pseudo command is given as one
  argument, the platform is \<open>darwin\<close>, the parent shell \<open>zsh\<close>, the reply carries the
  content \<open>find . -type f -size +42k\<close> and 100 total tokens, and the user types \<open>y\<close> and a
  newline. The other runs used below change single fields of it.
\<close>

definition scenario1 :: env where
  "scenario1 =
     \<lparr>os_args = [''gpt-cli-tool'', ''Find files larger than 42kB in the current directory''],
      this_command = ''gpt-cli-tool'',
      goos = ''darwin'',
      openai_api_key = ''sk-1'',
      parent_process = Some ''zsh'',
      marshal_error = None,
      new_request_error = None,
      http_reply =
        Reply [(''choices'',
                  JArr [JObj [(''message'', JObj [(''content'', JStr ''find . -type f -size +42k'')])]]),
               (''usage'', JObj [(''total_tokens'', JNum 100)])],
      stdin = runes ''y'' @ [0x0a],
      run_error = None\<rparr>"

section \<open>Properties\<close>

subsection \<open>Where subprocesses can come from\<close>

text \<open>Nothing before the confirmation starts a subprocess.\<close>

lemma extract_reply_no_CmdRun: "extract_reply cfg result = (t, r) \<Longrightarrow> CmdRun n a \<notin> set t"
  by (auto simp: extract_reply_def debugPrintf_def Let_def
      split: option.splits json.splits list.splits)

lemma makeCommand_no_CmdRun: "makeCommand e cfg p s = (t, r) \<Longrightarrow> CmdRun n a \<notin> set t"
  by (auto simp: makeCommand_def debugPrintf_def Let_def dest: extract_reply_no_CmdRun
      split: option.splits http_result.splits prod.splits if_splits)

lemma Usage_no_CmdRun: "Usage e = Inr u \<Longrightarrow> CmdRun n a \<notin> set u"
  by (auto simp: Usage_def Let_def split: option.splits)

lemma translate_no_CmdRun: "translate e = (t, r) \<Longrightarrow> CmdRun n a \<notin> set t"
  by (auto simp: translate_def debugPrintf_def Let_def
      dest: Usage_no_CmdRun makeCommand_no_CmdRun
      split: list.splits sum.splits option.splits prod.splits if_splits)

lemma answer_shown_no_CmdRun: "CmdRun n a \<notin> set (answer_shown c u)"
  by (simp add: answer_shown_def)

lemma run_reported_no_CmdRun: "CmdRun n a \<notin> set (run_reported e)"
  by (simp add: run_reported_def split: option.splits)

text \<open>Standard input is read only at the prompt.\<close>

lemma Usage_stdin: "Usage (e\<lparr>stdin := x\<rparr>) = Usage e"
  by (simp add: Usage_def Let_def split: option.splits)

lemma makeCommand_stdin: "makeCommand (e\<lparr>stdin := x\<rparr>) cfg p s = makeCommand e cfg p s"
  by (simp add: makeCommand_def Let_def split: option.splits http_result.splits)

lemma translate_stdin: "translate (e\<lparr>stdin := x\<rparr>) = translate e"
  by (simp add: translate_def Usage_stdin makeCommand_stdin Let_def
      split: list.splits sum.splits option.splits prod.splits)

text \<open>The scenario up to the return of \<open>makeCommand\<close>: one request, and the answer.\<close>

lemma scenario1_translate:
  "translate scenario1 =
     ([ClientDo (request_of ''sk-1'' (payload_of ''gpt-3.5-turbo''
         (prompt ''darwin'' ''zsh'' ''Find files larger than 42kB in the current directory'')))],
      Inr (''find . -type f -size +42k'', [(''total_tokens'', JNum 100)], ''zsh''))"
  by (simp add: scenario1_def translate_def init_def pseudo_command_def makeCommand_def
      extract_reply_def index_map_def debugPrintf_def Let_def)

subsection \<open>The confirmation\<close>

text \<open>What \<open>Scanln\<close> makes of some lines.\<close>

lemma Scanln_empty: "Scanln_string [0x0a] = []"
  by (simp add: Scanln_string_def)

lemma Scanln_Y: "Scanln_string (runes ''Y'' @ [0x0a]) = runes ''Y''"
  by (simp add: Scanln_string_def runes_def isSpace_def)

lemma Scanln_yes: "Scanln_string (runes ''yes'' @ [0x0a]) = runes ''yes''"
  by (simp add: Scanln_string_def runes_def isSpace_def)

lemma Scanln_y: "Scanln_string (runes ''y'' @ [0x0a]) = runes ''y''"
  by (simp add: Scanln_string_def runes_def isSpace_def)

lemma Scanln_y_n: "Scanln_string (runes ''y n'' @ [0x0a]) = runes ''y''"
  by (simp add: Scanln_string_def runes_def isSpace_def)

lemma Scanln_blank_y: "Scanln_string (runes '' y'' @ [0x0a]) = runes ''y''"
  by (simp add: Scanln_string_def runes_def isSpace_def)

text \<open>
  In general: after leading blanks, the word up to the next white space is what is read,
  whatever follows it; a line of blanks only, or the end of input, leaves the empty string.
\<close>

lemma SkipSpace_blanks:
  "\<forall>r\<in>set pre. isSpace r \<and> r \<noteq> 0x0a \<Longrightarrow> rest = [] \<or> \<not> isSpace (hd rest) \<or> hd rest = 0x0a \<Longrightarrow>
     SkipSpace (pre @ rest) = SkipSpace rest"
proof (induction pre)
  case Nil
  then show ?case by simp
next
  case (Cons r pre)
  then have "SkipSpace (pre @ rest) = SkipSpace rest" by simp
  moreover from Cons.prems(1) have "isSpace r" "r \<noteq> 0x0a" by simp_all
  ultimately show ?case by simp
qed

lemma Scanln_string_first_word:
  assumes "\<forall>r\<in>set pre. isSpace r \<and> r \<noteq> 0x0a"
    and "w \<noteq> []"
    and "\<forall>r\<in>set w. \<not> isSpace r"
    and "isSpace s"
  shows "Scanln_string (pre @ w @ s # rest) = w"
proof -
  obtain c cs where w: "w = c # cs" using assms(2) by (cases w) auto
  from assms(3) w have c: "\<not> isSpace c" by simp
  have "SkipSpace (pre @ (w @ s # rest)) = SkipSpace (w @ s # rest)"
    using assms(1) c w by (intro SkipSpace_blanks) simp_all
  moreover have "c \<noteq> 0x0a" "c \<noteq> 0x0d" using c by (auto simp: isSpace_def)
  then have "SkipSpace (w @ s # rest) = Some (w @ s # rest)" using c w by simp
  moreover have "takeWhile (\<lambda>r. \<not> isSpace r) (w @ s # rest) = w"
    using assms(3,4) by (simp add: takeWhile_append2)
  ultimately show ?thesis using w by (simp add: Scanln_string_def)
qed

lemma Scanln_string_no_word:
  assumes "\<forall>r\<in>set pre. isSpace r \<and> r \<noteq> 0x0a"
  shows "Scanln_string pre = []" and "Scanln_string (pre @ 0x0a # rest) = []"
proof -
  have "SkipSpace (pre @ []) = SkipSpace []" using assms by (intro SkipSpace_blanks) simp_all
  then show "Scanln_string pre = []" by (simp add: Scanln_string_def)
  have "SkipSpace (pre @ 0x0a # rest) = SkipSpace (0x0a # rest)"
    using assms by (intro SkipSpace_blanks) simp_all
  then show "Scanln_string (pre @ 0x0a # rest) = []" by (simp add: Scanln_string_def)
qed

text \<open>
  C1, as stated, fails: the line \<open>y n\<close> is not the string \<open>y\<close>, yet \<open>Scanln\<close> stores its
  first word \<open>y\<close> in \<open>confirmation\<close>, and the command is run.
\<close>

theorem C1_counterexample:
  "runes ''y n'' \<noteq> runes ''y'' \<and>
   CmdRun ''zsh'' [''-c'', ''find . -type f -size +42k'']
     \<in> set (fst (main (scenario1\<lparr>stdin := runes ''y n'' @ [0x0a]\<rparr>)))"
  by (simp add: main_def translate_stdin scenario1_translate confirm_run_def Scanln_y_n launcher_def)
    (simp add: scenario1_def runes_def)

text \<open>
  C1, amended: whenever the word that \<open>Scanln\<close> reads from the confirmation line (its first
  white-space delimited word, empty for an empty line) is not exactly \<open>y\<close>, the run starts
  no subprocess, and a run that got as far as the prompt ends with exit status 0 right
  after it. So a subprocess is started only when that word is exactly \<open>y\<close>.
\<close>

theorem C1_confirmation_gate:
  "Scanln_string (stdin e) \<noteq> runes ''y'' \<Longrightarrow>
     (\<forall>n a. CmdRun n a \<notin> set (fst (main e))) \<and>
     (\<forall>t command usage shell. translate e = (t, Inr (command, usage, shell)) \<longrightarrow>
        main e = (t @ answer_shown command usage, Exit 0))"
  by (auto simp: main_def confirm_run_def Let_def answer_shown_no_CmdRun
      dest: translate_no_CmdRun split: prod.splits sum.splits)

text \<open>C1, witness: the scenario with the line \<open>yes\<close>.\<close>

theorem C1_confirmation_gate_witness:
  "Scanln_string (stdin (scenario1\<lparr>stdin := runes ''yes'' @ [0x0a]\<rparr>)) \<noteq> runes ''y'' \<and>
   (\<forall>n a. CmdRun n a \<notin> set (fst (main (scenario1\<lparr>stdin := runes ''yes'' @ [0x0a]\<rparr>)))) \<and>
   snd (main (scenario1\<lparr>stdin := runes ''yes'' @ [0x0a]\<rparr>)) = Exit 0"
proof -
  have h: "Scanln_string (stdin (scenario1\<lparr>stdin := runes ''yes'' @ [0x0a]\<rparr>)) \<noteq> runes ''y''"
    by (simp add: Scanln_yes) (simp add: runes_def)
  show ?thesis
    using h C1_confirmation_gate [OF h]
    by (simp add: translate_stdin scenario1_translate answer_shown_no_CmdRun)
qed

subsection \<open>The shell dispatch\<close>

text \<open>The shell name that reaches the dispatch is the name of the parent process.\<close>

lemma translate_parent: "translate e = (t, Inr (command, usage, shell)) \<Longrightarrow> parent_process e = Some shell"
  by (auto simp: translate_def Let_def
      split: list.splits sum.splits option.splits prod.splits if_splits)

text \<open>
  C2: in a run that reached the prompt and was confirmed, the subprocess is the one of the
  table: on \<open>windows\<close>, \<open>powershell.exe -c command\<close> for \<open>powershell.exe\<close> and
  \<open>cmd.exe /C command\<close> for \<open>cmd.exe\<close>; elsewhere \<open>zsh -c command\<close> for \<open>zsh\<close> and
  \<open>bash -c command\<close> for \<open>bash\<close>. For every other pair the run prints the unsupported
  shell error with the shell name and the platform, ends with exit status 1, and has
  started no subprocess.
\<close>

theorem C2_dispatch_table:
  assumes "translate e = (t, Inr (command, usage, shell))"
    and "Scanln_string (stdin e) = runes ''y''"
  shows
    "parent_process e = Some shell \<and>
     (goos e = ''windows'' \<and> shell = ''powershell.exe'' \<longrightarrow>
        main e = (t @ answer_shown command usage @
                    [CmdRun ''powershell.exe'' [''-c'', command]] @ run_reported e, Exit 0)) \<and>
     (goos e = ''windows'' \<and> shell = ''cmd.exe'' \<longrightarrow>
        main e = (t @ answer_shown command usage @
                    [CmdRun ''cmd.exe'' [''/C'', command]] @ run_reported e, Exit 0)) \<and>
     (goos e \<noteq> ''windows'' \<and> shell = ''zsh'' \<longrightarrow>
        main e = (t @ answer_shown command usage @
                    [CmdRun ''zsh'' [''-c'', command]] @ run_reported e, Exit 0)) \<and>
     (goos e \<noteq> ''windows'' \<and> shell = ''bash'' \<longrightarrow>
        main e = (t @ answer_shown command usage @
                    [CmdRun ''bash'' [''-c'', command]] @ run_reported e, Exit 0)) \<and>
     (\<not> (goos e = ''windows'' \<and> (shell = ''powershell.exe'' \<or> shell = ''cmd.exe'')) \<and>
      \<not> (goos e \<noteq> ''windows'' \<and> (shell = ''zsh'' \<or> shell = ''bash'')) \<longrightarrow>
        main e = (t @ answer_shown command usage @
                    [Printf ''Error: unsupported shell %s on %s'' [OStr shell, OStr (goos e)]],
                  Exit 1) \<and>
        (\<forall>n a. CmdRun n a \<notin> set (fst (main e))))"
proof -
  have m: "main e = (case confirm_run e command usage shell of (t', out) \<Rightarrow> (t @ t', out))"
    using assms(1) by (simp add: main_def)
  have noc: "\<And>n a. CmdRun n a \<notin> set t"
    using assms(1) by (rule translate_no_CmdRun)
  have par: "parent_process e = Some shell"
    using assms(1) by (rule translate_parent)
  show ?thesis
    using assms(2) noc par
    by (simp add: m confirm_run_def launcher_def answer_shown_no_CmdRun)
qed

lemma scenario4_translate:
  "translate (scenario1\<lparr>goos := ''linux'', parent_process := Some ''fish''\<rparr>) =
     ([ClientDo (request_of ''sk-1'' (payload_of ''gpt-3.5-turbo''
         (prompt ''linux'' ''fish'' ''Find files larger than 42kB in the current directory'')))],
      Inr (''find . -type f -size +42k'', [(''total_tokens'', JNum 100)], ''fish''))"
  by (simp add: scenario1_def translate_def init_def pseudo_command_def makeCommand_def
      extract_reply_def index_map_def debugPrintf_def Let_def)

text \<open>C2, witness: the fourth scenario of the specification, \<open>fish\<close> on \<open>linux\<close>.\<close>

theorem C2_dispatch_table_witness:
  "Scanln_string (stdin (scenario1\<lparr>goos := ''linux'', parent_process := Some ''fish''\<rparr>)) = runes ''y'' \<and>
   main (scenario1\<lparr>goos := ''linux'', parent_process := Some ''fish''\<rparr>) =
     ([ClientDo (request_of ''sk-1'' (payload_of ''gpt-3.5-turbo''
         (prompt ''linux'' ''fish'' ''Find files larger than 42kB in the current directory'')))] @
      answer_shown ''find . -type f -size +42k'' [(''total_tokens'', JNum 100)] @
      [Printf ''Error: unsupported shell %s on %s'' [OStr ''fish'', OStr ''linux'']],
      Exit 1)"
proof -
  have s: "Scanln_string (stdin (scenario1\<lparr>goos := ''linux'', parent_process := Some ''fish''\<rparr>)) = runes ''y''"
    by (simp add: scenario1_def Scanln_y)
  have g: "goos (scenario1\<lparr>goos := ''linux'', parent_process := Some ''fish''\<rparr>) = ''linux''"
    by simp
  show ?thesis
    using C2_dispatch_table [OF scenario4_translate s] s
    by (simp add: g)
qed

subsection \<open>The child process\<close>

text \<open>
  C7: in a confirmed run with a launcher, when \<open>cmd.Run()\<close> returns an error (the child did
  not start, or exited non-zero), the error is printed after the launch and the run still
  ends with exit status 0.
\<close>

theorem C7_child_failure:
  assumes "translate e = (t, Inr (command, usage, shell))"
    and "Scanln_string (stdin e) = runes ''y''"
    and "launcher (goos e) shell command = Some (name, arg)"
    and "run_error e = Some err"
  shows "main e = (t @ answer_shown command usage @
                     [CmdRun name arg, Println [OStr ''Error: '', OErr err]], Exit 0)"
  using assms by (simp add: main_def confirm_run_def run_reported_def)

lemma translate_run_error: "translate (e\<lparr>run_error := x\<rparr>) = translate e"
  by (simp add: translate_def Usage_def makeCommand_def Let_def
      split: list.splits sum.splits option.splits prod.splits http_result.splits)

text \<open>C7, witness: the scenario with a child that exits with status 1.\<close>

theorem C7_child_failure_witness:
  "Scanln_string (stdin (scenario1\<lparr>run_error := Some ''exit status 1''\<rparr>)) = runes ''y'' \<and>
   launcher (goos (scenario1\<lparr>run_error := Some ''exit status 1''\<rparr>)) ''zsh''
     ''find . -type f -size +42k'' = Some (''zsh'', [''-c'', ''find . -type f -size +42k'']) \<and>
   run_error (scenario1\<lparr>run_error := Some ''exit status 1''\<rparr>) = Some ''exit status 1'' \<and>
   main (scenario1\<lparr>run_error := Some ''exit status 1''\<rparr>) =
     ([ClientDo (request_of ''sk-1'' (payload_of ''gpt-3.5-turbo''
         (prompt ''darwin'' ''zsh'' ''Find files larger than 42kB in the current directory'')))] @
      answer_shown ''find . -type f -size +42k'' [(''total_tokens'', JNum 100)] @
      [CmdRun ''zsh'' [''-c'', ''find . -type f -size +42k''],
       Println [OStr ''Error: '', OErr ''exit status 1'']],
      Exit 0)"
proof -
  have t: "translate (scenario1\<lparr>run_error := Some ''exit status 1''\<rparr>) =
     ([ClientDo (request_of ''sk-1'' (payload_of ''gpt-3.5-turbo''
         (prompt ''darwin'' ''zsh'' ''Find files larger than 42kB in the current directory'')))],
      Inr (''find . -type f -size +42k'', [(''total_tokens'', JNum 100)], ''zsh''))"
    by (simp add: translate_run_error scenario1_translate)
  have s: "Scanln_string (stdin (scenario1\<lparr>run_error := Some ''exit status 1''\<rparr>)) = runes ''y''"
    by (simp add: scenario1_def Scanln_y)
  have l: "launcher (goos (scenario1\<lparr>run_error := Some ''exit status 1''\<rparr>)) ''zsh''
     ''find . -type f -size +42k'' = Some (''zsh'', [''-c'', ''find . -type f -size +42k''])"
    by (simp add: scenario1_def launcher_def)
  have r: "run_error (scenario1\<lparr>run_error := Some ''exit status 1''\<rparr>) = Some ''exit status 1''"
    by simp
  show ?thesis
    using C7_child_failure [OF t s l r] s l by simp
qed

text \<open>
  C8: the first end-to-end scenario. With one argument holding the pseudo command, platform
  \<open>darwin\<close>, parent shell \<open>zsh\<close>, a credential, a reply whose first choice has the content
  \<open>find . -type f -size +42k\<close> and whose usage has 100 total tokens, and the line \<open>y\<close> typed
  at the prompt, the run sends one request, prints the usage line with the operand 100
  (which \<open>%.1f\<close> renders as 100.0), shows the command, and launches \<open>zsh\<close> with the two
  arguments \<open>-c\<close> and the whole command string.
\<close>

theorem C8_scenario:
  assumes "os_args e = [arg0, ''Find files larger than 42kB in the current directory'']"
    and "goos e = ''darwin''"
    and "parent_process e = Some ''zsh''"
    and "openai_api_key e \<noteq> []"
    and "marshal_error e = None"
    and "new_request_error e = None"
    and "http_reply e = Reply result"
    and "map_of result ''error'' = None"
    and "index_map result ''choices'' = JArr (JObj firstChoice # rest)"
    and "index_map firstChoice ''message'' = JObj message"
    and "index_map message ''content'' = JStr ''find . -type f -size +42k''"
    and "index_map result ''usage'' = JObj usage"
    and "index_map usage ''total_tokens'' = JNum 100"
    and "stdin e = runes ''y'' @ 0x0a # typed"
  shows
    "main e =
       ([ClientDo (request_of (openai_api_key e) (payload_of ''gpt-3.5-turbo''
           (prompt ''darwin'' ''zsh'' ''Find files larger than 42kB in the current directory''))),
         Printf ''Looks insanely complicated? Don't panic. The answer is ...\<newline>'' [],
         Printf ''number of tokens used (total_tokens): %.1f\<newline>'' [OAny (JNum 100)],
         Cyan ''find . -type f -size +42k'',
         Print [OStr ''Run? (y/n) ''],
         CmdRun ''zsh'' [''-c'', ''find . -type f -size +42k'']] @ run_reported e,
        Exit 0)"
proof -
  have x: "extract_reply init result = ([], Inr (''find . -type f -size +42k'', usage))"
    using assms(8-12) by (simp add: extract_reply_def debugPrintf_def init_def)
  have p: "pseudo_command init [''Find files larger than 42kB in the current directory''] =
             ''Find files larger than 42kB in the current directory''"
    by (simp add: pseudo_command_def init_def)
  have t: "translate e =
     ([ClientDo (request_of (openai_api_key e) (payload_of ''gpt-3.5-turbo''
           (prompt ''darwin'' ''zsh'' ''Find files larger than 42kB in the current directory'')))],
      Inr (''find . -type f -size +42k'', usage, ''zsh''))"
    using assms(1-7) x
    by (simp add: translate_def p makeCommand_def debugPrintf_def Let_def)
      (simp add: init_def)
  have s: "Scanln_string (stdin e) = runes ''y''"
    using assms(14) by (simp add: Scanln_string_def runes_def isSpace_def)
  show ?thesis
    using assms(2,13) s
    by (simp add: main_def t confirm_run_def launcher_def answer_shown_def)
qed

text \<open>C8, witness: the concrete scenario.\<close>

theorem C8_scenario_witness:
  "stdin scenario1 = runes ''y'' @ 0x0a # [] \<and>
   main scenario1 =
     ([ClientDo (request_of ''sk-1'' (payload_of ''gpt-3.5-turbo''
         (prompt ''darwin'' ''zsh'' ''Find files larger than 42kB in the current directory''))),
       Printf ''Looks insanely complicated? Don't panic. The answer is ...\<newline>'' [],
       Printf ''number of tokens used (total_tokens): %.1f\<newline>'' [OAny (JNum 100)],
       Cyan ''find . -type f -size +42k'',
       Print [OStr ''Run? (y/n) ''],
       CmdRun ''zsh'' [''-c'', ''find . -type f -size +42k'']],
      Exit 0)"
proof -
  let ?fc = "[(''message'', JObj [(''content'', JStr ''find . -type f -size +42k'')])]"
  let ?r = "[(''choices'', JArr [JObj ?fc]), (''usage'', JObj [(''total_tokens'', JNum 100)])]"
  have 1: "os_args scenario1 =
             [''gpt-cli-tool'', ''Find files larger than 42kB in the current directory'']"
    by (simp add: scenario1_def)
  have 2: "goos scenario1 = ''darwin''" by (simp add: scenario1_def)
  have 3: "parent_process scenario1 = Some ''zsh''" by (simp add: scenario1_def)
  have 4: "openai_api_key scenario1 \<noteq> []" by (simp add: scenario1_def)
  have 5: "marshal_error scenario1 = None" by (simp add: scenario1_def)
  have 6: "new_request_error scenario1 = None" by (simp add: scenario1_def)
  have 7: "http_reply scenario1 = Reply ?r" by (simp add: scenario1_def)
  have 8: "map_of ?r ''error'' = None" by simp
  have 9: "index_map ?r ''choices'' = JArr (JObj ?fc # [])" by (simp add: index_map_def)
  have 10: "index_map ?fc ''message'' = JObj [(''content'', JStr ''find . -type f -size +42k'')]"
    by (simp add: index_map_def)
  have 11: "index_map [(''content'', JStr ''find . -type f -size +42k'')] ''content'' =
              JStr ''find . -type f -size +42k''"
    by (simp add: index_map_def)
  have 12: "index_map ?r ''usage'' = JObj [(''total_tokens'', JNum 100)]"
    by (simp add: index_map_def)
  have 13: "index_map [(''total_tokens'', JNum 100)] ''total_tokens'' = JNum 100"
    by (simp add: index_map_def)
  have 14: "stdin scenario1 = runes ''y'' @ 0x0a # []" by (simp add: scenario1_def)
  have k: "openai_api_key scenario1 = ''sk-1''" by (simp add: scenario1_def)
  have r: "run_reported scenario1 = []" by (simp add: run_reported_def scenario1_def)
  from C8_scenario [OF 1 2 3 4 5 6 7 8 9 10 11 12 13 14] 14 show ?thesis
    by (simp add: k r)
qed

subsection \<open>The reply\<close>




text \<open>What lines 186-190 do with an \<open>error\<close> object, in \<open>makeCommand\<close> and in a whole run.\<close>

lemma oracle_error_run:
  assumes "map_of result ''error'' = Some (JObj errorDetails)"
  shows
    "extract_reply cfg result =
       ([Printf ''Error code %s: %s''
           [OAny (index_map errorDetails ''code''), OAny (index_map errorDetails ''message'')]],
        Inl (Exit 1)) \<and>
     (openai_api_key e \<noteq> [] \<and> marshal_error e = None \<and> new_request_error e = None \<and>
      http_reply e = Reply result \<longrightarrow>
        (\<exists>t. makeCommand e cfg pseudoCommand commandShell =
           (t @ [Printf ''Error code %s: %s''
                   [OAny (index_map errorDetails ''code''), OAny (index_map errorDetails ''message'')]],
            Inl (Exit 1)))) \<and>
     (openai_api_key e \<noteq> [] \<and> marshal_error e = None \<and> new_request_error e = None \<and>
      http_reply e = Reply result \<longrightarrow>
        (\<forall>t r. translate e = (t, r) \<longrightarrow> (\<exists>out. r = Inl out)) \<and>
        (\<forall>arg0 args cfg' positional shell.
           os_args e = arg0 # args \<and> flag_Parse init args = Inr (cfg', positional) \<and>
           \<not> displayVersion cfg' \<and> parent_process e = Some shell \<and>
           pseudo_command cfg' args \<noteq> [] \<longrightarrow>
           snd (main e) = Exit 1 \<and>
           last (fst (main e)) = Printf ''Error code %s: %s''
              [OAny (index_map errorDetails ''code''), OAny (index_map errorDetails ''message'')]))"
proof -
  have a: "extract_reply cfg' result =
       ([Printf ''Error code %s: %s''
           [OAny (index_map errorDetails ''code''), OAny (index_map errorDetails ''message'')]],
        Inl (Exit 1))" for cfg'
    using assms by (simp add: extract_reply_def)
  have b: "\<exists>t. makeCommand e cfg' p s =
           (t @ [Printf ''Error code %s: %s''
                   [OAny (index_map errorDetails ''code''), OAny (index_map errorDetails ''message'')]],
            Inl (Exit 1))"
    if "openai_api_key e \<noteq> []" "marshal_error e = None" "new_request_error e = None"
       "http_reply e = Reply result" for cfg' p s
    using that by (simp add: makeCommand_def a Let_def)
  have c: "\<exists>out. r = Inl out"
    if "openai_api_key e \<noteq> []" "marshal_error e = None" "new_request_error e = None"
       "http_reply e = Reply result" "translate e = (t, r)" for t r
    using that
    by (auto simp: translate_def makeCommand_def a Let_def
        split: list.splits sum.splits option.splits prod.splits if_splits)
  have d: "snd (main e) = Exit 1 \<and>
           last (fst (main e)) = Printf ''Error code %s: %s''
              [OAny (index_map errorDetails ''code''), OAny (index_map errorDetails ''message'')]"
    if "openai_api_key e \<noteq> []" "marshal_error e = None" "new_request_error e = None"
       "http_reply e = Reply result" "os_args e = arg0 # args"
       "flag_Parse init args = Inr (cfg', positional)" "\<not> displayVersion cfg'"
       "parent_process e = Some shell" "pseudo_command cfg' args \<noteq> []"
    for arg0 args cfg' positional shell
  proof -
    from b [OF that(1-4), of cfg' "pseudo_command cfg' args" shell]
    obtain t where "makeCommand e cfg' (pseudo_command cfg' args) shell =
           (t @ [Printf ''Error code %s: %s''
                   [OAny (index_map errorDetails ''code''), OAny (index_map errorDetails ''message'')]],
            Inl (Exit 1))" by blast
    with that(5-9) show ?thesis
      by (simp add: main_def translate_def Let_def)
  qed
  from a b c d show ?thesis by blast
qed

lemma Sprintf_error_line:
  "Sprintf ''Error code %s: %s'' [OAny (JStr code), OAny (JStr message)] =
     Some (''Error code '' @ code @ '': '' @ message)"
  by simp

text \<open>
  C5, as stated, fails: for an \<open>error\<close> object whose \<open>code\<close> is null (or absent), the line
  printed does not carry the code: \<open>%s\<close> prints \<open>%!s(<nil>)\<close> in its place.
\<close>

theorem C5_counterexample:
  "index_map [(''message'', JStr ''Rate limit reached''), (''code'', JNull)] ''code'' = JNull \<and>
   extract_reply init
     [(''error'', JObj [(''message'', JStr ''Rate limit reached''), (''code'', JNull)])] =
     ([Printf ''Error code %s: %s'' [OAny JNull, OAny (JStr ''Rate limit reached'')]],
      Inl (Exit 1)) \<and>
   Sprintf ''Error code %s: %s'' [OAny JNull, OAny (JStr ''Rate limit reached'')] =
     Some ''Error code %!s(<nil>): Rate limit reached''"
  by (simp add: extract_reply_def index_map_def)

text \<open>
  C5, amended: for a reply with an \<open>error\<close> object, \<open>makeCommand\<close> prints the line
  \<open>Error code %s: %s\<close> with the object's \<open>code\<close> and \<open>message\<close> as operands and exits with
  status 1, so it returns no result, and a run that called it ends with that line and
  exit status 1. When \<open>code\<close> and \<open>message\<close> are strings, the line written is
  \<open>Error code \<close>, the code, \<open>: \<close>, the message: both as they are in the reply.
\<close>

theorem C5_oracle_error:
  assumes "map_of result ''error'' = Some (JObj errorDetails)"
  shows
    "extract_reply cfg result =
       ([Printf ''Error code %s: %s''
           [OAny (index_map errorDetails ''code''), OAny (index_map errorDetails ''message'')]],
        Inl (Exit 1)) \<and>
     (\<forall>code message.
        index_map errorDetails ''code'' = JStr code \<and>
        index_map errorDetails ''message'' = JStr message \<longrightarrow>
        Sprintf ''Error code %s: %s''
          [OAny (index_map errorDetails ''code''), OAny (index_map errorDetails ''message'')] =
          Some (''Error code '' @ code @ '': '' @ message)) \<and>
     (openai_api_key e \<noteq> [] \<and> marshal_error e = None \<and> new_request_error e = None \<and>
      http_reply e = Reply result \<longrightarrow>
        (\<forall>t r. translate e = (t, r) \<longrightarrow> (\<exists>out. r = Inl out)) \<and>
        (\<forall>arg0 args cfg' positional shell.
           os_args e = arg0 # args \<and> flag_Parse init args = Inr (cfg', positional) \<and>
           \<not> displayVersion cfg' \<and> parent_process e = Some shell \<and>
           pseudo_command cfg' args \<noteq> [] \<longrightarrow>
           snd (main e) = Exit 1 \<and>
           last (fst (main e)) = Printf ''Error code %s: %s''
              [OAny (index_map errorDetails ''code''), OAny (index_map errorDetails ''message'')]))"
proof -
  note run = oracle_error_run [OF assms, of cfg e pseudoCommand commandShell]
  have s: "\<forall>code message.
        index_map errorDetails ''code'' = JStr code \<and>
        index_map errorDetails ''message'' = JStr message \<longrightarrow>
        Sprintf ''Error code %s: %s''
          [OAny (index_map errorDetails ''code''), OAny (index_map errorDetails ''message'')] =
          Some (''Error code '' @ code @ '': '' @ message)"
    by (simp add: Sprintf_error_line)
  from run s show ?thesis by blast
qed

text \<open>C5, witness: the scenario with the oracle's answer to a wrong key.\<close>

theorem C5_oracle_error_witness:
  "map_of [(''error'', JObj [(''message'', JStr ''Incorrect API key provided''),
                             (''code'', JStr ''invalid_api_key'')])] ''error'' =
     Some (JObj [(''message'', JStr ''Incorrect API key provided''),
                 (''code'', JStr ''invalid_api_key'')]) \<and>
   snd (main (scenario1\<lparr>http_reply :=
           Reply [(''error'', JObj [(''message'', JStr ''Incorrect API key provided''),
                                   (''code'', JStr ''invalid_api_key'')])]\<rparr>)) = Exit 1 \<and>
   last (fst (main (scenario1\<lparr>http_reply :=
           Reply [(''error'', JObj [(''message'', JStr ''Incorrect API key provided''),
                                   (''code'', JStr ''invalid_api_key'')])]\<rparr>))) =
     Printf ''Error code %s: %s''
       [OAny (JStr ''invalid_api_key''), OAny (JStr ''Incorrect API key provided'')] \<and>
   Sprintf ''Error code %s: %s''
       [OAny (JStr ''invalid_api_key''), OAny (JStr ''Incorrect API key provided'')] =
     Some ''Error code invalid_api_key: Incorrect API key provided''"
proof -
  let ?d = "[(''message'', JStr ''Incorrect API key provided''), (''code'', JStr ''invalid_api_key'')]"
  let ?e = "scenario1\<lparr>http_reply := Reply [(''error'', JObj ?d)]\<rparr>"
  have h: "map_of [(''error'', JObj ?d)] ''error'' = Some (JObj ?d)" by simp
  have c: "index_map ?d ''code'' = JStr ''invalid_api_key'' \<and>
           index_map ?d ''message'' = JStr ''Incorrect API key provided''"
    by (simp add: index_map_def)
  have p: "openai_api_key ?e \<noteq> [] \<and> marshal_error ?e = None \<and> new_request_error ?e = None \<and>
           http_reply ?e = Reply [(''error'', JObj ?d)]"
    by (simp add: scenario1_def)
  have q: "os_args ?e = ''gpt-cli-tool'' # [''Find files larger than 42kB in the current directory''] \<and>
           flag_Parse init [''Find files larger than 42kB in the current directory''] =
             Inr (init, [''Find files larger than 42kB in the current directory'']) \<and>
           \<not> displayVersion init \<and> parent_process ?e = Some ''zsh'' \<and>
           pseudo_command init [''Find files larger than 42kB in the current directory''] \<noteq> []"
    by (simp add: scenario1_def init_def pseudo_command_def)
  from C5_oracle_error [OF h, of init ?e] p q c
  have "snd (main ?e) = Exit 1 \<and>
        last (fst (main ?e)) =
          Printf ''Error code %s: %s'' [OAny (index_map ?d ''code''), OAny (index_map ?d ''message'')] \<and>
        Sprintf ''Error code %s: %s''
          [OAny (index_map ?d ''code''), OAny (index_map ?d ''message'')] =
          Some (''Error code '' @ ''invalid_api_key'' @ '': '' @ ''Incorrect API key provided'')"
    by blast
  with h c show ?thesis by simp
qed

subsection \<open>The credential\<close>

lemma Usage_no_ClientDo: "Usage e = Inr u \<Longrightarrow> ClientDo req \<notin> set u"
  by (auto simp: Usage_def Let_def split: option.splits)

lemma extract_reply_no_ClientDo: "extract_reply cfg result = (t, r) \<Longrightarrow> ClientDo req \<notin> set t"
  by (auto simp: extract_reply_def debugPrintf_def Let_def
      split: option.splits json.splits list.splits)

lemma makeCommand_no_key:
  "openai_api_key e = [] \<Longrightarrow>
     makeCommand e cfg p s =
       ([Printf ''Error: OPENAI_API_KEY is not set. %s'' [OStr apiKeyInfo]], Inl (Exit 1))"
  by (simp add: makeCommand_def)

lemma translate_no_key_no_ClientDo:
  "openai_api_key e = [] \<Longrightarrow> translate e = (t, r) \<Longrightarrow> ClientDo req \<notin> set t \<and> (\<exists>out. r = Inl out)"
  by (auto simp: translate_def makeCommand_no_key debugPrintf_def Let_def
      dest: Usage_no_ClientDo
      split: list.splits sum.splits option.splits prod.splits if_splits)

text \<open>
  C4, as stated, fails: the credential is looked at only in \<open>makeCommand\<close>, after lines
  219-249. Without a key, a run with \<open>-V\<close> prints the version and ends with exit status 0,
  and a run with no arguments prints the flag defaults and the example and ends with exit
  status 1; neither prints the configuration error.
\<close>

theorem C4_counterexample:
  "openai_api_key (scenario1\<lparr>openai_api_key := [], os_args := [''gpt-cli-tool'', ''-V'']\<rparr>) = [] \<and>
   main (scenario1\<lparr>openai_api_key := [], os_args := [''gpt-cli-tool'', ''-V'']\<rparr>) =
     ([Println [OStr ''Version: 0.1'']], Exit 0) \<and>
   main (scenario1\<lparr>openai_api_key := [], os_args := [''gpt-cli-tool'']\<rparr>) =
     ([PrintDefaults,
       Println [OStr ''Example: gpt-cli-tool Find files larger than 42kB in the current directory'']],
      Exit 1)"
  by (simp add: main_def translate_def scenario1_def init_def version_def pseudo_command_def
      debugPrintf_def)

text \<open>
  C4, amended: when \<open>OPENAI_API_KEY\<close> is unset (or empty), \<open>makeCommand\<close> prints the
  configuration error with the remediation text (where to get a key, and how to set it on
  each platform) and exits with status 1, and that is all it does. So every run that gets
  as far as calling it (the flags parse, \<open>-V\<close> is not given, the parent process is found,
  the pseudo command is not empty) ends that way, and no run at all with an unset key
  sends a request.
\<close>

theorem C4_missing_credential:
  assumes "openai_api_key e = []"
  shows
    "makeCommand e cfg pseudoCommand commandShell =
       ([Printf ''Error: OPENAI_API_KEY is not set. %s''
           [OStr ''Goto https://platform.openai.com/account/api-keys to get your API key. Set the API key on CLI by 'export OPENAI_API_KEY=key' on Linux and MacOS or $Env:OPENAI_API_KEY = 'key' on Windows PowerShell\<newline>\<newline>'']],
        Inl (Exit 1)) \<and>
     Sprintf ''Error: OPENAI_API_KEY is not set. %s''
         [OStr ''Goto https://platform.openai.com/account/api-keys to get your API key. Set the API key on CLI by 'export OPENAI_API_KEY=key' on Linux and MacOS or $Env:OPENAI_API_KEY = 'key' on Windows PowerShell\<newline>\<newline>''] =
       Some (''Error: OPENAI_API_KEY is not set. '' @
             ''Goto https://platform.openai.com/account/api-keys to get your API key. Set the API key on CLI by 'export OPENAI_API_KEY=key' on Linux and MacOS or $Env:OPENAI_API_KEY = 'key' on Windows PowerShell\<newline>\<newline>'') \<and>
     (\<forall>arg0 args cfg' positional shell.
        os_args e = arg0 # args \<and> flag_Parse init args = Inr (cfg', positional) \<and>
        \<not> displayVersion cfg' \<and> parent_process e = Some shell \<and>
        pseudo_command cfg' args \<noteq> [] \<longrightarrow>
        main e = (debugPrintf cfg' ''parent process name %s\<newline>'' [OStr shell] @
                  [Printf ''Error: OPENAI_API_KEY is not set. %s''
                     [OStr ''Goto https://platform.openai.com/account/api-keys to get your API key. Set the API key on CLI by 'export OPENAI_API_KEY=key' on Linux and MacOS or $Env:OPENAI_API_KEY = 'key' on Windows PowerShell\<newline>\<newline>'']],
                  Exit 1)) \<and>
     (\<forall>req. ClientDo req \<notin> set (fst (main e)))"
proof -
  have a: "makeCommand e cfg' p s =
       ([Printf ''Error: OPENAI_API_KEY is not set. %s''
           [OStr ''Goto https://platform.openai.com/account/api-keys to get your API key. Set the API key on CLI by 'export OPENAI_API_KEY=key' on Linux and MacOS or $Env:OPENAI_API_KEY = 'key' on Windows PowerShell\<newline>\<newline>'']],
        Inl (Exit 1))" for cfg' p s
    using makeCommand_no_key [OF assms, of cfg' p s] by (simp add: apiKeyInfo_def)
  have r: "Sprintf ''Error: OPENAI_API_KEY is not set. %s'' [OStr x] =
       Some (''Error: OPENAI_API_KEY is not set. '' @ x)" for x
    by simp
  have b: "\<forall>arg0 args cfg' positional shell.
        os_args e = arg0 # args \<and> flag_Parse init args = Inr (cfg', positional) \<and>
        \<not> displayVersion cfg' \<and> parent_process e = Some shell \<and>
        pseudo_command cfg' args \<noteq> [] \<longrightarrow>
        main e = (debugPrintf cfg' ''parent process name %s\<newline>'' [OStr shell] @
                  [Printf ''Error: OPENAI_API_KEY is not set. %s''
                     [OStr ''Goto https://platform.openai.com/account/api-keys to get your API key. Set the API key on CLI by 'export OPENAI_API_KEY=key' on Linux and MacOS or $Env:OPENAI_API_KEY = 'key' on Windows PowerShell\<newline>\<newline>'']],
                  Exit 1)"
    by (simp add: main_def translate_def a Let_def)
  have c: "\<forall>req. ClientDo req \<notin> set (fst (main e))"
  proof
    fix req
    obtain t r where tr: "translate e = (t, r)" by (cases "translate e")
    from translate_no_key_no_ClientDo [OF assms tr]
    obtain out where "ClientDo req \<notin> set t" and "r = Inl out" by blast
    with tr show "ClientDo req \<notin> set (fst (main e))" by (simp add: main_def)
  qed
  from a r b c show ?thesis by blast
qed

text \<open>C4, witness: the scenario without the key.\<close>

theorem C4_missing_credential_witness:
  "openai_api_key (scenario1\<lparr>openai_api_key := []\<rparr>) = [] \<and>
   main (scenario1\<lparr>openai_api_key := []\<rparr>) =
     ([Printf ''Error: OPENAI_API_KEY is not set. %s''
         [OStr ''Goto https://platform.openai.com/account/api-keys to get your API key. Set the API key on CLI by 'export OPENAI_API_KEY=key' on Linux and MacOS or $Env:OPENAI_API_KEY = 'key' on Windows PowerShell\<newline>\<newline>'']],
      Exit 1)"
proof -
  have k: "openai_api_key (scenario1\<lparr>openai_api_key := []\<rparr>) = []" by simp
  have "os_args (scenario1\<lparr>openai_api_key := []\<rparr>) =
          ''gpt-cli-tool'' # [''Find files larger than 42kB in the current directory''] \<and>
        flag_Parse init [''Find files larger than 42kB in the current directory''] =
          Inr (init, [''Find files larger than 42kB in the current directory'']) \<and>
        \<not> displayVersion init \<and>
        parent_process (scenario1\<lparr>openai_api_key := []\<rparr>) = Some ''zsh'' \<and>
        pseudo_command init [''Find files larger than 42kB in the current directory''] \<noteq> []"
    by (simp add: scenario1_def init_def pseudo_command_def)
  with C4_missing_credential [OF k, of init] k show ?thesis
    by (simp add: debugPrintf_def init_def)
qed

text \<open>
  C10: in verbose mode the first thing \<open>makeCommand\<close> does with a credential is to log it
  as it is. In a run with \<open>-v\<close> that calls \<open>makeCommand\<close> it is the second event of the
  trace, before the request, and two such runs that differ only in the credential write
  different logs.
\<close>

theorem C10_verbose_logs_key:
  assumes "verbose cfg" and "openai_api_key e \<noteq> []"
  shows
    "(\<exists>t. fst (makeCommand e cfg pseudoCommand commandShell) =
         LogPrintf ''OPENAI_API_KEY: %s'' [OStr (openai_api_key e)] # t) \<and>
     (\<forall>arg0 args positional shell.
        os_args e = arg0 # args \<and> flag_Parse init args = Inr (cfg, positional) \<and>
        \<not> displayVersion cfg \<and> parent_process e = Some shell \<and>
        pseudo_command cfg args \<noteq> [] \<longrightarrow>
        (\<exists>t. fst (main e) =
           LogPrintf ''parent process name %s\<newline>'' [OStr shell] #
           LogPrintf ''OPENAI_API_KEY: %s'' [OStr (openai_api_key e)] # t) \<and>
        (\<forall>k. k \<noteq> [] \<and> k \<noteq> openai_api_key e \<longrightarrow>
           logged (fst (main (e\<lparr>openai_api_key := k\<rparr>))) \<noteq> logged (fst (main e))))"
proof -
  have a: "\<exists>t. fst (makeCommand e' cfg p s) =
         LogPrintf ''OPENAI_API_KEY: %s'' [OStr (openai_api_key e')] # t"
    if "openai_api_key e' \<noteq> []" for e' p s
    using that assms(1)
    by (auto simp: makeCommand_def debugPrintf_def Let_def
        split: option.splits http_result.splits prod.splits)
  have b: "\<exists>t. fst (main e') =
           LogPrintf ''parent process name %s\<newline>'' [OStr shell] #
           LogPrintf ''OPENAI_API_KEY: %s'' [OStr (openai_api_key e')] # t"
    if "openai_api_key e' \<noteq> []" "os_args e' = arg0 # args"
       "flag_Parse init args = Inr (cfg, positional)" "\<not> displayVersion cfg"
       "parent_process e' = Some shell" "pseudo_command cfg args \<noteq> []"
    for e' arg0 args positional shell
  proof -
    from a [OF that(1), of "pseudo_command cfg args" shell]
    obtain t where t: "fst (makeCommand e' cfg (pseudo_command cfg args) shell) =
         LogPrintf ''OPENAI_API_KEY: %s'' [OStr (openai_api_key e')] # t" by blast
    obtain t' r where m: "makeCommand e' cfg (pseudo_command cfg args) shell = (t', r)"
      by (cases "makeCommand e' cfg (pseudo_command cfg args) shell")
    with t have t': "t' = LogPrintf ''OPENAI_API_KEY: %s'' [OStr (openai_api_key e')] # t" by simp
    show ?thesis
      using that(2-6) assms(1) m t'
      by (auto simp: main_def translate_def debugPrintf_def Let_def
          split: sum.splits prod.splits)
  qed
  have c: "logged (fst (main (e\<lparr>openai_api_key := k\<rparr>))) \<noteq> logged (fst (main e))"
    if "os_args e = arg0 # args"
       "flag_Parse init args = Inr (cfg, positional)" "\<not> displayVersion cfg"
       "parent_process e = Some shell" "pseudo_command cfg args \<noteq> []"
       "k \<noteq> []" "k \<noteq> openai_api_key e"
    for arg0 args positional shell k
  proof -
    from b [OF assms(2) that(1-5)] obtain t where
      1: "fst (main e) = LogPrintf ''parent process name %s\<newline>'' [OStr shell] #
           LogPrintf ''OPENAI_API_KEY: %s'' [OStr (openai_api_key e)] # t" by blast
    from b [of "e\<lparr>openai_api_key := k\<rparr>" arg0 args positional shell] that obtain t' where
      2: "fst (main (e\<lparr>openai_api_key := k\<rparr>)) =
           LogPrintf ''parent process name %s\<newline>'' [OStr shell] #
           LogPrintf ''OPENAI_API_KEY: %s'' [OStr k] # t'" by auto
    from 1 2 that(7) show ?thesis by (simp add: logged_def)
  qed
  from a [OF assms(2)] b [OF assms(2)] c show ?thesis by blast
qed

text \<open>C10, witness: the scenario run with \<open>-v\<close>, and with another key.\<close>

theorem C10_verbose_logs_key_witness:
  "verbose \<lparr>verbose = True, displayVersion = False, model = ''gpt-3.5-turbo''\<rparr> \<and>
   openai_api_key (scenario1\<lparr>os_args := [''gpt-cli-tool'', ''-v'', ''list files'']\<rparr>) \<noteq> [] \<and>
   (\<exists>t. fst (main (scenario1\<lparr>os_args := [''gpt-cli-tool'', ''-v'', ''list files'']\<rparr>)) =
      LogPrintf ''parent process name %s\<newline>'' [OStr ''zsh''] #
      LogPrintf ''OPENAI_API_KEY: %s'' [OStr ''sk-1''] # t) \<and>
   logged (fst (main (scenario1\<lparr>os_args := [''gpt-cli-tool'', ''-v'', ''list files''],
                                 openai_api_key := ''sk-2''\<rparr>))) \<noteq>
   logged (fst (main (scenario1\<lparr>os_args := [''gpt-cli-tool'', ''-v'', ''list files'']\<rparr>)))"
proof -
  let ?cfg = "\<lparr>verbose = True, displayVersion = False, model = ''gpt-3.5-turbo''\<rparr>"
  let ?e = "scenario1\<lparr>os_args := [''gpt-cli-tool'', ''-v'', ''list files'']\<rparr>"
  have v: "verbose ?cfg" by simp
  have k: "openai_api_key ?e \<noteq> []" by (simp add: scenario1_def)
  have k1: "openai_api_key ?e = ''sk-1''" by (simp add: scenario1_def)
  have q: "os_args ?e = ''gpt-cli-tool'' # [''-v'', ''list files''] \<and>
           flag_Parse init [''-v'', ''list files''] = Inr (?cfg, [''list files'']) \<and>
           \<not> displayVersion ?cfg \<and> parent_process ?e = Some ''zsh'' \<and>
           pseudo_command ?cfg [''-v'', ''list files''] \<noteq> []"
    by (simp add: scenario1_def init_def pseudo_command_def)
  have n: "''sk-2'' \<noteq> [] \<and> ''sk-2'' \<noteq> openai_api_key ?e" by (simp add: scenario1_def)
  from C10_verbose_logs_key [OF v k] q
  have a: "(\<exists>t. fst (main ?e) =
           LogPrintf ''parent process name %s\<newline>'' [OStr ''zsh''] #
           LogPrintf ''OPENAI_API_KEY: %s'' [OStr (openai_api_key ?e)] # t) \<and>
        (\<forall>k. k \<noteq> [] \<and> k \<noteq> openai_api_key ?e \<longrightarrow>
           logged (fst (main (?e\<lparr>openai_api_key := k\<rparr>))) \<noteq> logged (fst (main ?e)))"
    by blast
  with n have "logged (fst (main (?e\<lparr>openai_api_key := ''sk-2''\<rparr>))) \<noteq> logged (fst (main ?e))"
    by blast
  with a v k show ?thesis by (simp add: k1)
qed

subsection \<open>The prompt\<close>

text \<open>Every request of a run comes from \<open>makeCommand\<close>, and carries the template around the
  platform, the parent shell and the pseudo command of lines 231-240.\<close>

lemma makeCommand_ClientDo:
  "makeCommand e cfg p s = (t, r) \<Longrightarrow> ClientDo req \<in> set t \<Longrightarrow>
     req = request_of (openai_api_key e) (payload_of (model cfg) (prompt (goos e) s p))"
  by (auto simp: makeCommand_def debugPrintf_def Let_def dest: extract_reply_no_ClientDo
      split: option.splits http_result.splits prod.splits if_splits)

lemma confirm_run_no_ClientDo: "confirm_run e c u s = (t, out) \<Longrightarrow> ClientDo req \<notin> set t"
  by (auto simp: confirm_run_def answer_shown_def run_reported_def Let_def
      split: option.splits prod.splits if_splits)

lemma translate_ClientDo:
  "translate e = (t, r) \<Longrightarrow> ClientDo req \<in> set t \<Longrightarrow>
     \<exists>arg0 args cfg positional shell.
       os_args e = arg0 # args \<and> flag_Parse init args = Inr (cfg, positional) \<and>
       parent_process e = Some shell \<and>
       req = request_of (openai_api_key e)
               (payload_of (model cfg) (prompt (goos e) shell (pseudo_command cfg args)))"
  by (auto simp: translate_def debugPrintf_def Let_def
      dest: Usage_no_ClientDo makeCommand_ClientDo
      split: list.splits sum.splits option.splits prod.splits if_splits)

lemma main_ClientDo:
  assumes "ClientDo req \<in> set (fst (main e))"
  shows "\<exists>arg0 args cfg positional shell.
       os_args e = arg0 # args \<and> flag_Parse init args = Inr (cfg, positional) \<and>
       parent_process e = Some shell \<and>
       req = request_of (openai_api_key e)
               (payload_of (model cfg) (prompt (goos e) shell (pseudo_command cfg args)))"
proof -
  obtain t r where tr: "translate e = (t, r)" by (cases "translate e")
  have "ClientDo req \<in> set t"
  proof (cases r)
    case (Inl out)
    with tr assms show ?thesis by (simp add: main_def)
  next
    case (Inr v)
    obtain c u s where v: "v = (c, u, s)" by (cases v)
    obtain t' out where cr: "confirm_run e c u s = (t', out)" by (cases "confirm_run e c u s")
    from confirm_run_no_ClientDo [OF cr] have "ClientDo req \<notin> set t'" .
    with tr Inr v cr assms show ?thesis by (simp add: main_def)
  qed
  with tr show ?thesis by (rule translate_ClientDo)
qed

lemma translate_trace_in_main: "translate e = (t, r) \<Longrightarrow> x \<in> set t \<Longrightarrow> x \<in> set (fst (main e))"
  by (auto simp: main_def split: sum.splits prod.splits)

lemma translate_v_foo:
  "translate (scenario1\<lparr>os_args := [''gpt-cli-tool'', ''-v'', ''foo'']\<rparr>) =
     ([LogPrintf ''parent process name %s\<newline>'' [OStr ''zsh''],
       LogPrintf ''OPENAI_API_KEY: %s'' [OStr ''sk-1''],
       LogPrintf ''API URL: %s'' [OStr url],
       LogPrintf ''plattform: %s'' [OStr ''darwin''],
       LogPrintf ''\<newline>%s\<newline>''
         [OData (Some (payload_of ''gpt-3.5-turbo'' (prompt ''darwin'' ''zsh'' '' foo'')))],
       ClientDo (request_of ''sk-1'' (payload_of ''gpt-3.5-turbo'' (prompt ''darwin'' ''zsh'' '' foo''))),
       LogPrintf ''result:\<newline>%#v\<newline>''
         [OMap [(''choices'',
                  JArr [JObj [(''message'', JObj [(''content'', JStr ''find . -type f -size +42k'')])]]),
                (''usage'', JObj [(''total_tokens'', JNum 100)])]],
       LogPrintf ''usage:\<newline>%#v\<newline>'' [OMap [(''total_tokens'', JNum 100)]]],
      Inr (''find . -type f -size +42k'', [(''total_tokens'', JNum 100)], ''zsh''))"
  by (simp add: scenario1_def translate_def init_def pseudo_command_def makeCommand_def
      extract_reply_def index_map_def debugPrintf_def Let_def)

lemma translate_m_foo:
  "translate (scenario1\<lparr>os_args := [''gpt-cli-tool'', ''-m=gpt-4'', ''foo'']\<rparr>) =
     ([ClientDo (request_of ''sk-1'' (payload_of ''gpt-4'' (prompt ''darwin'' ''zsh'' ''-m=gpt-4 foo'')))],
      Inr (''find . -type f -size +42k'', [(''total_tokens'', JNum 100)], ''zsh''))"
  by (simp add: scenario1_def translate_def init_def pseudo_command_def makeCommand_def
      extract_reply_def index_map_def debugPrintf_def Let_def)

text \<open>
  C6 does not hold of the code, whose comments say that lines 236 and 240 remove \<open>-v\<close>
  and the flag \<open>-m\<close> with its model from the pseudo command. With the arguments
  \<open>-m=gpt-4 foo\<close> the only positional argument is \<open>foo\<close>, the model is \<open>gpt-4\<close>, and the
  prompt of the request embeds the flag itself; with \<open>-v foo\<close> it embeds \<open>foo\<close> with the
  blank that followed the flag.
\<close>

theorem C6_flag_left_in_prompt:
  "flag_Parse init [''-v'', ''foo''] =
     Inr (\<lparr>verbose = True, displayVersion = False, model = ''gpt-3.5-turbo''\<rparr>, [''foo'']) \<and>
   strings_Join [''foo''] '' '' = ''foo'' \<and>
   ClientDo (request_of ''sk-1'' (payload_of ''gpt-3.5-turbo'' (prompt ''darwin'' ''zsh'' '' foo'')))
     \<in> set (fst (main (scenario1\<lparr>os_args := [''gpt-cli-tool'', ''-v'', ''foo'']\<rparr>))) \<and>
   '' foo'' \<noteq> ''foo'' \<and>
   flag_Parse init [''-m=gpt-4'', ''foo''] =
     Inr (\<lparr>verbose = False, displayVersion = False, model = ''gpt-4''\<rparr>, [''foo'']) \<and>
   ClientDo (request_of ''sk-1'' (payload_of ''gpt-4'' (prompt ''darwin'' ''zsh'' ''-m=gpt-4 foo'')))
     \<in> set (fst (main (scenario1\<lparr>os_args := [''gpt-cli-tool'', ''-m=gpt-4'', ''foo'']\<rparr>))) \<and>
   ''-m=gpt-4 foo'' \<noteq> ''foo''"
proof -
  have a: "ClientDo (request_of ''sk-1'' (payload_of ''gpt-3.5-turbo'' (prompt ''darwin'' ''zsh'' '' foo'')))
     \<in> set (fst (main (scenario1\<lparr>os_args := [''gpt-cli-tool'', ''-v'', ''foo'']\<rparr>)))"
    by (rule translate_trace_in_main [OF translate_v_foo]) simp
  have b: "ClientDo (request_of ''sk-1'' (payload_of ''gpt-4'' (prompt ''darwin'' ''zsh'' ''-m=gpt-4 foo'')))
     \<in> set (fst (main (scenario1\<lparr>os_args := [''gpt-cli-tool'', ''-m=gpt-4'', ''foo'']\<rparr>)))"
    by (rule translate_trace_in_main [OF translate_m_foo]) simp
  from a b show ?thesis by (simp add: init_def)
qed

subsection \<open>The parent process\<close>

text \<open>
  C9 does not hold of the code: when \<open>ps.FindProcess\<close> returns no process, line 228 calls
  \<open>Executable()\<close> on the nil interface, and the run ends in a panic before anything is
  printed.
\<close>

theorem C9_nil_parent_process:
  assumes "os_args e = arg0 # args"
    and "flag_Parse init args = Inr (cfg, positional)"
    and "\<not> displayVersion cfg"
    and "parent_process e = None"
  shows "main e = ([], Panic NilDereference)"
  using assms by (simp add: main_def translate_def)

text \<open>C9, witness: the scenario without a parent process entry.\<close>

theorem C9_nil_parent_process_witness:
  "os_args (scenario1\<lparr>parent_process := None\<rparr>) =
     ''gpt-cli-tool'' # [''Find files larger than 42kB in the current directory''] \<and>
   flag_Parse init [''Find files larger than 42kB in the current directory''] =
     Inr (init, [''Find files larger than 42kB in the current directory'']) \<and>
   \<not> displayVersion init \<and>
   parent_process (scenario1\<lparr>parent_process := None\<rparr>) = None \<and>
   main (scenario1\<lparr>parent_process := None\<rparr>) = ([], Panic NilDereference)"
proof -
  have a: "os_args (scenario1\<lparr>parent_process := None\<rparr>) =
     ''gpt-cli-tool'' # [''Find files larger than 42kB in the current directory'']"
    by (simp add: scenario1_def)
  have b: "flag_Parse init [''Find files larger than 42kB in the current directory''] =
     Inr (init, [''Find files larger than 42kB in the current directory''])"
    by simp
  have c: "\<not> displayVersion init" by (simp add: init_def)
  have d: "parent_process (scenario1\<lparr>parent_process := None\<rparr>) = None" by simp
  from C9_nil_parent_process [OF a b c d] a b c d show ?thesis by simp
qed

end
